theory Spec2Isabelle
  imports Main
begin

section \<open>The terminal session bridge\<close>

text \<open>
  The terminal server is an event-driven JavaScript program: a WebSocket listener whose
  \<^verbatim>\<open>connection\<close> handler spawns a shell under a pseudo-terminal and registers
  callbacks on the pseudo-terminal and on the socket, a global \<^verbatim>\<open>terminals\<close> map, and
  a \<^verbatim>\<open>SIGINT\<close> handler. Each handler runs to completion, so the program is modelled as a
  transition function on a record of the server's state, one transition per event delivered
  by the runtime. The calls the handlers make on their collaborators (the pseudo-terminal
  library, the socket, the listener, the hosting process) are recorded, in order, in the
  field \<open>effects\<close>; what is printed on the console is recorded in \<open>console\<close>.

  What the runtime and the libraries decide is a parameter of the event: the random draw,
  the platform and the environment, whether \<^verbatim>\<open>process.cwd()\<close> or
  \<^verbatim>\<open>pty.spawn\<close> throws, the arguments the exit listener is called with, the result of \<^verbatim>\<open>JSON.parse\<close>, whether a call on the
  pseudo-terminal throws inside the \<^verbatim>\<open>try\<close> of the message handler. The other calls
  return (\<^verbatim>\<open>terminal.kill()\<close> swallows its errors; a socket is open when the server
  sends on it), so the handlers of \<^verbatim>\<open>uncaughtException\<close> and
  \<^verbatim>\<open>unhandledRejection\<close>, which only print, never run. The start of the server
  (\<^verbatim>\<open>server.listen\<close> and its console lines) is left out.
\<close>

subsection \<open>JavaScript values\<close>

text \<open>
  The handlers never compute with the numbers they receive (pid, exit code, columns, rows):
  they only pass them on, so a number is carried as an integer. Strings are lists of bytes
  (the UTF-8 text that travels on the wire).
\<close>

datatype jsvalue =
    JUndefined
  | JNull
  | JBool bool
  | JNum int
  | JStr string
  | JArr "jsvalue list"
  | JObj "(string \<times> jsvalue) list"

text \<open>
  Property access \<^verbatim>\<open>v.k\<close> for the keys the message handler reads (\<^verbatim>\<open>type\<close>,
  \<^verbatim>\<open>data\<close>, \<^verbatim>\<open>cols\<close>, \<^verbatim>\<open>rows\<close>): on \<^verbatim>\<open>null\<close> and \<^verbatim>\<open>undefined\<close>
  it throws a TypeError (\<open>None\<close>), on an object it is the property or \<^verbatim>\<open>undefined\<close>,
  on every other value it is \<^verbatim>\<open>undefined\<close>.
\<close>

fun js_member :: "jsvalue \<Rightarrow> string \<Rightarrow> jsvalue option" where
  "js_member JUndefined k = None"
| "js_member JNull k = None"
| "js_member (JObj props) k = Some (case map_of props k of Some v \<Rightarrow> v | None \<Rightarrow> JUndefined)"
| "js_member v k = Some JUndefined"

text \<open>
  \<^verbatim>\<open>JSON.stringify\<close> of an object literal. At every depth a property whose value is
  \<^verbatim>\<open>undefined\<close> is left out, and an \<^verbatim>\<open>undefined\<close> element of an array is written
  \<^verbatim>\<open>null\<close>. The envelope is kept as the JSON value that the text denotes.
\<close>

fun stringify_value :: "jsvalue \<Rightarrow> jsvalue"
  and stringify_props :: "(string \<times> jsvalue) list \<Rightarrow> (string \<times> jsvalue) list"
  and stringify_items :: "jsvalue list \<Rightarrow> jsvalue list" where
  "stringify_value (JObj props) = JObj (stringify_props props)"
| "stringify_value (JArr items) = JArr (stringify_items items)"
| "stringify_value v = v"
| "stringify_props [] = []"
| "stringify_props ((k, v) # props) =
     (if v = JUndefined then stringify_props props
      else (k, stringify_value v) # stringify_props props)"
| "stringify_items [] = []"
| "stringify_items (v # items) =
     (if v = JUndefined then JNull else stringify_value v) # stringify_items items"

definition JSON_stringify :: "(string \<times> jsvalue) list \<Rightarrow> jsvalue" where
  "JSON_stringify props = JObj (stringify_props props)"

subsection \<open>Identifiers\<close>

text \<open>
  \<^verbatim>\<open>function generateId() { return Math.random().toString(36).substr(2, 9); }\<close>
  The argument is the text \<^verbatim>\<open>Math.random().toString(36)\<close> of the random draw, which the
  runtime supplies; \<^verbatim>\<open>substr(2, 9)\<close> keeps at most nine characters from position two.
\<close>

definition generateId :: "string \<Rightarrow> string" where
  "generateId r = take 9 (drop 2 r)"

subsection \<open>The registry: a JavaScript Map\<close>

text \<open>
  \<^verbatim>\<open>const terminals = new Map()\<close>. A Map keeps its entries in insertion order;
  \<^verbatim>\<open>set\<close> on a key that is present replaces the value where it stands. The values are
  pseudo-terminal objects, identified by a handle.
\<close>

type_synonym registry = "(string \<times> nat) list"

fun Map_get :: "registry \<Rightarrow> string \<Rightarrow> nat option" where
  "Map_get [] k = None"
| "Map_get ((k', v) # m) k = (if k' = k then Some v else Map_get m k)"

fun Map_set :: "string \<Rightarrow> nat \<Rightarrow> registry \<Rightarrow> registry" where
  "Map_set k v [] = [(k, v)]"
| "Map_set k v ((k', v') # m) = (if k' = k then (k, v) # m else (k', v') # Map_set k v m)"

fun Map_delete :: "string \<Rightarrow> registry \<Rightarrow> registry" where
  "Map_delete k [] = []"
| "Map_delete k ((k', v) # m) = (if k' = k then Map_delete k m else (k', v) # Map_delete k m)"

subsection \<open>State\<close>

datatype ready_state = CONNECTING | OPEN | CLOSING | CLOSED

text \<open>
  One accepted socket together with the variables its handlers close over:
  \<^verbatim>\<open>terminalId\<close>, and \<^verbatim>\<open>terminal\<close>, which exists only when \<^verbatim>\<open>pty.spawn\<close> returned
  (the handlers \<^verbatim>\<open>onData\<close>, \<^verbatim>\<open>onExit\<close> and \<^verbatim>\<open>message\<close> are registered exactly then).
\<close>

record connection =
  readyState :: ready_state
  terminalId :: string
  terminal :: "nat option"

record spawn_options =
  name :: string
  cols :: jsvalue
  rows :: jsvalue
  env_TERM :: string
  env_COLORTERM :: string

text \<open>The calls made on the collaborators.\<close>

datatype effect =
    Spawn nat string spawn_options  \<comment> \<open>\<^verbatim>\<open>pty.spawn(shell, [], options)\<close>, by connection\<close>
  | Write nat jsvalue               \<comment> \<open>\<^verbatim>\<open>terminal.write(data)\<close>\<close>
  | Resize nat jsvalue jsvalue      \<comment> \<open>\<^verbatim>\<open>terminal.resize(cols, rows)\<close>\<close>
  | Kill nat                        \<comment> \<open>\<^verbatim>\<open>terminal.kill()\<close>\<close>
  | Send nat jsvalue                \<comment> \<open>\<^verbatim>\<open>ws.send(JSON.stringify(...))\<close>\<close>
  | Close nat                       \<comment> \<open>\<^verbatim>\<open>ws.close()\<close>\<close>
  | ListenerClose                   \<comment> \<open>\<^verbatim>\<open>wss.close(callback)\<close>\<close>
  | ProcessExit int                 \<comment> \<open>\<^verbatim>\<open>process.exit(code)\<close>\<close>

text \<open>The lines written by \<^verbatim>\<open>console.log\<close>, \<^verbatim>\<open>console.warn\<close> and \<^verbatim>\<open>console.error\<close>.\<close>

datatype console_line =
    LogConnection
  | LogSpawned int string
  | LogExit jsvalue jsvalue
  | LogResize jsvalue jsvalue
  | WarnUnknownType jsvalue
  | ErrorMessage
  | ErrorSpawn string
  | LogDisconnected
  | ErrorWebSocket
  | LogShuttingDown
  | LogKilling string
  | LogListenerClosed

datatype listener_state = Listening | ListenerClosing | ListenerClosed

record server =
  terminals :: registry
  conns :: "connection list"
  listener :: listener_state
  exited :: bool
  effects :: "effect list"
  console :: "console_line list"

definition init :: server where
  "init = \<lparr>terminals = [], conns = [], listener = Listening, exited = False,
            effects = [], console = []\<rparr>"

subsection \<open>Collaborators\<close>

definition do_effect :: "effect \<Rightarrow> server \<Rightarrow> server" where
  "do_effect e s = s\<lparr>effects := effects s @ [e]\<rparr>"

definition console_log :: "console_line \<Rightarrow> server \<Rightarrow> server" where
  "console_log l s = s\<lparr>console := console s @ [l]\<rparr>"

definition set_readyState :: "nat \<Rightarrow> ready_state \<Rightarrow> server \<Rightarrow> server" where
  "set_readyState c r s = s\<lparr>conns := (conns s)[c := (conns s ! c)\<lparr>readyState := r\<rparr>]\<rparr>"

definition ws_send :: "nat \<Rightarrow> jsvalue \<Rightarrow> server \<Rightarrow> server" where
  "ws_send c msg s = do_effect (Send c msg) s"

text \<open>\<^verbatim>\<open>ws.close()\<close> starts the closing handshake: an open socket becomes \<^verbatim>\<open>CLOSING\<close>.\<close>

definition ws_close :: "nat \<Rightarrow> server \<Rightarrow> server" where
  "ws_close c s =
     (let s1 = do_effect (Close c) s
      in if readyState (conns s1 ! c) = OPEN then set_readyState c CLOSING s1 else s1)"

text \<open>\<^verbatim>\<open>wss.close(callback)\<close>: the listener stops; the callback runs when it has closed.\<close>

definition wss_close :: "server \<Rightarrow> server" where
  "wss_close s =
     (let s1 = do_effect ListenerClose s
      in if listener s1 = Listening then s1\<lparr>listener := ListenerClosing\<rparr> else s1)"

subsection \<open>What the runtime supplies when a connection is accepted\<close>

text \<open>
  The statement \<^verbatim>\<open>pty.spawn(shell, [], { ..., cwd: process.cwd(), ... })\<close> inside the
  \<^verbatim>\<open>try\<close> ends in one of three ways: \<^verbatim>\<open>process.cwd()\<close> throws while the
  arguments are evaluated, so that \<^verbatim>\<open>pty.spawn\<close> is not called; \<^verbatim>\<open>pty.spawn\<close> is
  called and throws; or it returns a pseudo-terminal. The first two carry the message of the
  error, the third the pid.
\<close>

datatype spawn_outcome = CwdThrows string | SpawnThrows string | Spawned int

record accept_env =
  rnd :: string                     \<comment> \<open>\<^verbatim>\<open>Math.random().toString(36)\<close>\<close>
  platform :: string                \<comment> \<open>\<^verbatim>\<open>os.platform()\<close>\<close>
  env_SHELL :: "string option"      \<comment> \<open>\<^verbatim>\<open>process.env.SHELL\<close>\<close>
  spawn_result :: spawn_outcome     \<comment> \<open>how the spawn statement ends\<close>

text \<open>
  \<^verbatim>\<open>os.platform() === 'win32' ? 'powershell.exe' : process.env.SHELL || '/bin/bash'\<close>
  (the empty string is falsy).
\<close>

definition select_shell :: "accept_env \<Rightarrow> string" where
  "select_shell env =
     (if platform env = ''win32'' then ''powershell.exe''
      else (case env_SHELL env of
              None \<Rightarrow> ''/bin/bash''
            | Some sh \<Rightarrow> if sh = [] then ''/bin/bash'' else sh))"

definition pty_options :: spawn_options where
  "pty_options = \<lparr>name = ''xterm-color'', cols = JNum 80, rows = JNum 30,
                   env_TERM = ''xterm-256color'', env_COLORTERM = ''truecolor''\<rparr>"

text \<open>The prefix of the error message sent when the spawn fails, as UTF-8 bytes.\<close>

definition spawn_failed_prefix :: string where
  "spawn_failed_prefix = map char_of
     [229, 136, 155, 229, 187, 186, 231, 187, 136, 231, 171, 175, 232, 191, 155,
      231, 168, 139, 229, 164, 177, 232, 180, 165, 58, 32 :: nat]"

subsection \<open>The handlers\<close>

text \<open>\<^verbatim>\<open>terminal.onData((data) => { if (ws.readyState === ws.OPEN) ws.send(...) })\<close>\<close>

definition terminal_onData :: "nat \<Rightarrow> string \<Rightarrow> server \<Rightarrow> server" where
  "terminal_onData c d s =
     (if readyState (conns s ! c) = OPEN
      then ws_send c (JSON_stringify [(''type'', JStr ''output''), (''data'', JStr d)]) s
      else s)"

text \<open>
  \<^verbatim>\<open>terminal.onExit((code, signal) => { ... })\<close>: the entry is deleted first; the
  \<^verbatim>\<open>exit\<close> envelope is sent and the socket closed only when the socket is open.
\<close>

definition terminal_onExit :: "nat \<Rightarrow> jsvalue \<Rightarrow> jsvalue \<Rightarrow> server \<Rightarrow> server" where
  "terminal_onExit c code signal s =
     (let s1 = console_log (LogExit code signal) s;
          s2 = s1\<lparr>terminals := Map_delete (terminalId (conns s1 ! c)) (terminals s1)\<rparr>
      in if readyState (conns s2 ! c) = OPEN
         then ws_close c
                (ws_send c (JSON_stringify
                   [(''type'', JStr ''exit''), (''code'', code), (''signal'', signal)]) s2)
         else s2)"

text \<open>
  \<^verbatim>\<open>ws.on('message', ...)\<close>. The first argument is the connection, the second the
  pseudo-terminal the handler closes over, the third the result of
  \<^verbatim>\<open>JSON.parse(message.toString())\<close> (\<open>None\<close> when it throws), the fourth whether the
  call that the handler makes on the pseudo-terminal throws (\<^verbatim>\<open>resize\<close> rejects sizes
  that are not positive). Every exception inside the \<^verbatim>\<open>try\<close> ends in the \<^verbatim>\<open>catch\<close>,
  which prints an error.
\<close>

definition ws_on_message :: "nat \<Rightarrow> nat \<Rightarrow> jsvalue option \<Rightarrow> bool \<Rightarrow> server \<Rightarrow> server" where
  "ws_on_message c t parsed thrown s =
     (case parsed of
        None \<Rightarrow> console_log ErrorMessage s
      | Some data \<Rightarrow>
          (case js_member data ''type'' of
             None \<Rightarrow> console_log ErrorMessage s
           | Some ty \<Rightarrow>
               if ty = JStr ''input'' then
                 (case js_member data ''data'' of
                    None \<Rightarrow> console_log ErrorMessage s
                  | Some payload \<Rightarrow>
                      (let s1 = do_effect (Write t payload) s
                       in if thrown then console_log ErrorMessage s1 else s1))
               else if ty = JStr ''resize'' then
                 (case (js_member data ''cols'', js_member data ''rows'') of
                    (Some w, Some h) \<Rightarrow>
                      (let s1 = do_effect (Resize t w h) s
                       in if thrown then console_log ErrorMessage s1
                          else console_log (LogResize w h) s1)
                  | _ \<Rightarrow> console_log ErrorMessage s)
               else console_log (WarnUnknownType ty) s))"

text \<open>
  \<^verbatim>\<open>ws.on('close', ...)\<close> and \<^verbatim>\<open>ws.on('error', ...)\<close>: look the pseudo-terminal up
  under \<^verbatim>\<open>terminalId\<close>; when there is one, kill it and delete the entry.
\<close>

definition kill_registered :: "nat \<Rightarrow> server \<Rightarrow> server" where
  "kill_registered c s =
     (case Map_get (terminals s) (terminalId (conns s ! c)) of
        None \<Rightarrow> s
      | Some t \<Rightarrow>
          (let s1 = do_effect (Kill t) s
           in s1\<lparr>terminals := Map_delete (terminalId (conns s1 ! c)) (terminals s1)\<rparr>))"

definition ws_on_close :: "nat \<Rightarrow> server \<Rightarrow> server" where
  "ws_on_close c s = kill_registered c (console_log LogDisconnected s)"

definition ws_on_error :: "nat \<Rightarrow> server \<Rightarrow> server" where
  "ws_on_error c s = kill_registered c (console_log ErrorWebSocket s)"

text \<open>
  The \<^verbatim>\<open>catch\<close> of the connection handler: print, send the \<^verbatim>\<open>error\<close> envelope,
  close the socket.
\<close>

definition catch_spawn :: "nat \<Rightarrow> string \<Rightarrow> server \<Rightarrow> server" where
  "catch_spawn c message s =
     (let s1 = console_log (ErrorSpawn message) s;
          s2 = ws_send c (JSON_stringify
                 [(''type'', JStr ''error''),
                  (''message'', JStr (spawn_failed_prefix @ message))]) s1
      in ws_close c s2)"

text \<open>
  \<^verbatim>\<open>wss.on('connection', (ws, req) => { ... })\<close>. The new socket is open; its index in
  \<open>conns\<close> identifies it, and the pseudo-terminal it spawns carries the same number.
\<close>

definition on_connection :: "jsvalue \<Rightarrow> accept_env \<Rightarrow> server \<Rightarrow> server" where
  "on_connection req env s =
     (let c = length (conns s);
          terminalId = generateId (rnd env);
          shell = select_shell env;
          s0 = s\<lparr>conns := conns s @
                  [\<lparr>readyState = OPEN, terminalId = terminalId, terminal = None\<rparr>]\<rparr>;
          s1 = console_log LogConnection s0
      in case spawn_result env of
           CwdThrows message \<Rightarrow> catch_spawn c message s1
         | SpawnThrows message \<Rightarrow>
             catch_spawn c message (do_effect (Spawn c shell pty_options) s1)
         | Spawned pid \<Rightarrow>
             (let s2 = do_effect (Spawn c shell pty_options) s1;
                  s3 = s2\<lparr>terminals := Map_set terminalId c (terminals s2),
                         conns := (conns s2)[c := (conns s2 ! c)\<lparr>terminal := Some c\<rparr>]\<rparr>;
                  s4 = console_log (LogSpawned pid shell) s3
              in ws_send c (JSON_stringify
                   [(''type'', JStr ''connected''), (''terminalId'', JStr terminalId),
                    (''shell'', JStr shell), (''pid'', JNum pid)]) s4))"

text \<open>
  \<^verbatim>\<open>process.on('SIGINT', ...)\<close>: \<^verbatim>\<open>terminals.forEach\<close> kills every registered
  pseudo-terminal in the order of the Map, then \<^verbatim>\<open>wss.close\<close> is called.
\<close>

definition kill_each :: "server \<Rightarrow> string \<times> nat \<Rightarrow> server" where
  "kill_each s entry = do_effect (Kill (snd entry)) (console_log (LogKilling (fst entry)) s)"

definition on_SIGINT :: "server \<Rightarrow> server" where
  "on_SIGINT s =
     (let s1 = console_log LogShuttingDown s;
          s2 = foldl kill_each s1 (terminals s1)
      in wss_close s2)"

text \<open>The callback given to \<^verbatim>\<open>wss.close\<close>: print, then \<^verbatim>\<open>process.exit(0)\<close>.\<close>

definition wss_close_callback :: "server \<Rightarrow> server" where
  "wss_close_callback s =
     (let s1 = do_effect (ProcessExit 0) (console_log LogListenerClosed s)
      in s1\<lparr>exited := True\<rparr>)"

subsection \<open>Events\<close>

datatype event =
    EvConnection jsvalue accept_env        \<comment> \<open>the listener accepts a socket\<close>
  | EvData nat string                      \<comment> \<open>the pseudo-terminal produces output\<close>
  | EvExit nat jsvalue jsvalue             \<comment> \<open>the exit listener is called: its two parameters\<close>
  | EvMessage nat "jsvalue option" bool    \<comment> \<open>a message arrives: its parse, whether the call throws\<close>
  | EvClosing nat                          \<comment> \<open>the socket library enters \<^verbatim>\<open>CLOSING\<close>\<close>
  | EvClose nat                            \<comment> \<open>the socket's \<^verbatim>\<open>close\<close> event\<close>
  | EvError nat                            \<comment> \<open>the socket's \<^verbatim>\<open>error\<close> event\<close>
  | EvSIGINT
  | EvListenerClosed                       \<comment> \<open>the listener has closed\<close>

text \<open>
  An event on a socket that was never accepted has no handler; the handlers on the
  pseudo-terminal and the \<^verbatim>\<open>message\<close> handler exist only after a successful spawn. The
  \<^verbatim>\<open>close\<close> event finds the socket \<^verbatim>\<open>CLOSED\<close>. Nothing runs once the process has exited.
\<close>

definition step :: "server \<Rightarrow> event \<Rightarrow> server" where
  "step s e =
     (if exited s then s
      else case e of
        EvConnection req env \<Rightarrow> on_connection req env s
      | EvData c d \<Rightarrow>
          (if c < length (conns s) \<and> terminal (conns s ! c) \<noteq> None
           then terminal_onData c d s else s)
      | EvExit c code signal \<Rightarrow>
          (if c < length (conns s) \<and> terminal (conns s ! c) \<noteq> None
           then terminal_onExit c code signal s else s)
      | EvMessage c parsed thrown \<Rightarrow>
          (if c < length (conns s)
           then (case terminal (conns s ! c) of
                   None \<Rightarrow> s
                 | Some t \<Rightarrow> ws_on_message c t parsed thrown s)
           else s)
      | EvClosing c \<Rightarrow>
          (if c < length (conns s) \<and> readyState (conns s ! c) = OPEN
           then set_readyState c CLOSING s else s)
      | EvClose c \<Rightarrow>
          (if c < length (conns s) then ws_on_close c (set_readyState c CLOSED s) else s)
      | EvError c \<Rightarrow>
          (if c < length (conns s) then ws_on_error c s else s)
      | EvSIGINT \<Rightarrow> on_SIGINT s
      | EvListenerClosed \<Rightarrow>
          (if listener s = ListenerClosing
           then wss_close_callback (s\<lparr>listener := ListenerClosed\<rparr>) else s))"

definition run :: "event list \<Rightarrow> server" where
  "run es = foldl step init es"

subsection \<open>Observations\<close>

text \<open>
  The source keeps no state field. A session is active once its spawn has succeeded: its
  pseudo-terminal exists and the handlers on it and on its messages are registered.
\<close>

definition Active :: "server \<Rightarrow> nat \<Rightarrow> bool" where
  "Active s c = (c < length (conns s) \<and> terminal (conns s ! c) \<noteq> None)"

text \<open>The parsed form of the inbound envelope \<^verbatim>\<open>{"type":"input","data":p}\<close>.\<close>

definition input_envelope :: "string \<Rightarrow> jsvalue" where
  "input_envelope p = JObj [(''type'', JStr ''input''), (''data'', JStr p)]"

text \<open>The text a pseudo-terminal has been given: the strings written to it, in order.\<close>

fun written :: "nat \<Rightarrow> effect list \<Rightarrow> string" where
  "written t [] = []"
| "written t (Write t' (JStr p) # es) = (if t' = t then p @ written t es else written t es)"
| "written t (e # es) = written t es"

text \<open>
  The size last asked of a pseudo-terminal: the columns and rows of the spawn, replaced by
  those of each later \<^verbatim>\<open>resize\<close>.
\<close>

fun resized :: "(jsvalue \<times> jsvalue) option \<Rightarrow> nat \<Rightarrow> effect \<Rightarrow> (jsvalue \<times> jsvalue) option" where
  "resized d t (Spawn c shell opts) = (if c = t then Some (cols opts, rows opts) else d)"
| "resized d t (Resize t' w h) = (if t' = t then Some (w, h) else d)"
| "resized d t e = d"

definition dimensions :: "nat \<Rightarrow> effect list \<Rightarrow> (jsvalue \<times> jsvalue) option" where
  "dimensions t es = foldl (\<lambda>d. resized d t) None es"

text \<open>
  The pseudo-terminal \<open>t\<close> belongs to a session with identifier \<open>k\<close> whose spawn
  succeeded and whose socket has not closed.
\<close>

definition owned :: "server \<Rightarrow> string \<Rightarrow> nat \<Rightarrow> bool" where
  "owned s k t =
     (t < length (conns s) \<and> terminalId (conns s ! t) = k
      \<and> terminal (conns s ! t) = Some t \<and> readyState (conns s ! t) \<noteq> CLOSED)"

text \<open>An event is a connection that draws the identifier \<open>k\<close>.\<close>

definition draws :: "string \<Rightarrow> event \<Rightarrow> bool" where
  "draws k e = (case e of EvConnection req env \<Rightarrow> generateId (rnd env) = k | _ \<Rightarrow> False)"

text \<open>An event is the exit, the close or the error of session \<open>c\<close>.\<close>

definition ends :: "nat \<Rightarrow> event \<Rightarrow> bool" where
  "ends c e =
     (case e of
        EvExit c' code signal \<Rightarrow> c' = c
      | EvClose c' \<Rightarrow> c' = c
      | EvError c' \<Rightarrow> c' = c
      | _ \<Rightarrow> False)"

text \<open>
  The registry holds \<open>t\<close> under \<open>k\<close>, and no other socket was given the identifier \<open>k\<close>.
\<close>

definition sole_holder :: "server \<Rightarrow> string \<Rightarrow> nat \<Rightarrow> bool" where
  "sole_holder s k t =
     (Map_get (terminals s) k = Some t
      \<and> list_all (\<lambda>c. terminalId (conns s ! c) \<noteq> k \<or> c = t) [0..<length (conns s)])"

text \<open>An event gives the identifier \<open>k\<close> to a new session whose spawn succeeds.\<close>

definition reissues :: "string \<Rightarrow> event \<Rightarrow> bool" where
  "reissues k e =
     (case e of
        EvConnection req env \<Rightarrow>
          (case spawn_result env of Spawned pid \<Rightarrow> generateId (rnd env) = k | _ \<Rightarrow> False)
      | _ \<Rightarrow> False)"

text \<open>An example: one client connected to a Linux host, its shell spawned.\<close>

definition example_accept :: "string \<Rightarrow> int \<Rightarrow> accept_env" where
  "example_accept r p =
     \<lparr>rnd = r, platform = ''linux'', env_SHELL = Some ''/bin/zsh'', spawn_result = Spawned p\<rparr>"

definition one_session :: server where
  "one_session = run [EvConnection JNull (example_accept ''0.4fzyo82mv0p'' 4242)]"

text \<open>
  A second example: two clients whose random draws differ but agree on the nine characters
  that \<^verbatim>\<open>generateId\<close> keeps (both texts are printed for doubles near 0.123456).
\<close>

definition two_sessions :: server where
  "two_sessions =
     run [EvConnection JNull (example_accept ''0.4fzyo82mv0p'' 4242),
          EvConnection JNull (example_accept ''0.4fzyo82mv1j'' 4243)]"

text \<open>
  Two more examples: the first session ends on one side (its shell exits, or its socket
  closes), and before the other side follows, a second client connects and draws the same
  identifier.
\<close>

definition exit_then_reconnect :: server where
  "exit_then_reconnect =
     foldl step one_session
       [EvExit 0 (JObj [(''exitCode'', JNum 0), (''signal'', JNum 0)]) JUndefined,
        EvConnection JNull (example_accept ''0.4fzyo82mv1j'' 4243)]"

definition close_then_reconnect :: server where
  "close_then_reconnect =
     foldl step one_session
       [EvClose 0, EvConnection JNull (example_accept ''0.4fzyo82mv1j'' 4243)]"

text \<open>The parsed form of the inbound envelope \<^verbatim>\<open>{"type":"resize","cols":w,"rows":h}\<close>.\<close>

definition resize_envelope :: "int \<Rightarrow> int \<Rightarrow> jsvalue" where
  "resize_envelope w h = JObj [(''type'', JStr ''resize''), (''cols'', JNum w), (''rows'', JNum h)]"

section \<open>Basic facts\<close>

lemma do_effect_simps [simp]:
  "terminals (do_effect e s) = terminals s"
  "conns (do_effect e s) = conns s"
  "listener (do_effect e s) = listener s"
  "exited (do_effect e s) = exited s"
  "effects (do_effect e s) = effects s @ [e]"
  "console (do_effect e s) = console s"
  by (simp_all add: do_effect_def)

lemma console_log_simps [simp]:
  "terminals (console_log l s) = terminals s"
  "conns (console_log l s) = conns s"
  "listener (console_log l s) = listener s"
  "exited (console_log l s) = exited s"
  "effects (console_log l s) = effects s"
  "console (console_log l s) = console s @ [l]"
  by (simp_all add: console_log_def)

lemma set_readyState_simps [simp]:
  "terminals (set_readyState c r s) = terminals s"
  "conns (set_readyState c r s) = (conns s)[c := (conns s ! c)\<lparr>readyState := r\<rparr>]"
  "listener (set_readyState c r s) = listener s"
  "exited (set_readyState c r s) = exited s"
  "effects (set_readyState c r s) = effects s"
  "console (set_readyState c r s) = console s"
  by (simp_all add: set_readyState_def)

lemma ws_send_simps [simp]:
  "terminals (ws_send c m s) = terminals s"
  "conns (ws_send c m s) = conns s"
  "listener (ws_send c m s) = listener s"
  "exited (ws_send c m s) = exited s"
  "effects (ws_send c m s) = effects s @ [Send c m]"
  "console (ws_send c m s) = console s"
  by (simp_all add: ws_send_def)

lemma ws_close_simps [simp]:
  "terminals (ws_close c s) = terminals s"
  "listener (ws_close c s) = listener s"
  "exited (ws_close c s) = exited s"
  "effects (ws_close c s) = effects s @ [Close c]"
  "console (ws_close c s) = console s"
  "length (conns (ws_close c s)) = length (conns s)"
  by (simp_all add: ws_close_def Let_def)

lemma Map_get_delete_same [simp]: "Map_get (Map_delete k m) k = None"
  by (induction m) auto

lemma Map_get_delete_other: "k' \<noteq> k \<Longrightarrow> Map_get (Map_delete k m) k' = Map_get m k'"
  by (induction m) auto

lemma Map_get_set_same [simp]: "Map_get (Map_set k v m) k = Some v"
  by (induction m) auto

lemma Map_get_set_other: "k' \<noteq> k \<Longrightarrow> Map_get (Map_set k v m) k' = Map_get m k'"
  by (induction m) auto

lemma Map_get_delete: "Map_get (Map_delete k' m) k = (if k = k' then None else Map_get m k)"
  by (induction m) auto

lemma Map_get_set: "Map_get (Map_set k' v m) k = (if k = k' then Some v else Map_get m k)"
  by (induction m) auto

lemma Map_delete_absent: "Map_get m k = None \<Longrightarrow> Map_delete k m = m"
  by (induction m) (auto split: if_splits)

lemma foldl_kill_each_effects:
  "effects (foldl kill_each s m) = effects s @ map (\<lambda>entry. Kill (snd entry)) m"
  by (induction m arbitrary: s) (simp_all add: kill_each_def)

lemma foldl_kill_each_frame:
  "terminals (foldl kill_each s m) = terminals s"
  "conns (foldl kill_each s m) = conns s"
  "listener (foldl kill_each s m) = listener s"
  "exited (foldl kill_each s m) = exited s"
  by (induction m arbitrary: s) (simp_all add: kill_each_def)

lemma catch_spawn_simps [simp]:
  "terminals (catch_spawn c message s) = terminals s"
  "listener (catch_spawn c message s) = listener s"
  "exited (catch_spawn c message s) = exited s"
  "effects (catch_spawn c message s) =
     effects s @ [Send c (JObj [(''type'', JStr ''error''),
                                (''message'', JStr (spawn_failed_prefix @ message))]),
                  Close c]"
  "console (catch_spawn c message s) = console s @ [ErrorSpawn message]"
  by (simp_all add: catch_spawn_def JSON_stringify_def Let_def)

lemma exited_handlers [simp]:
  "exited (on_connection req env s) = exited s"
  "exited (terminal_onData c d s) = exited s"
  "exited (terminal_onExit c code signal s) = exited s"
  "exited (ws_on_message c t parsed thrown s) = exited s"
  "exited (kill_registered c s) = exited s"
  "exited (on_SIGINT s) = exited s"
  by (simp_all add: on_connection_def terminal_onData_def terminal_onExit_def
      ws_on_message_def kill_registered_def on_SIGINT_def wss_close_def Let_def
      foldl_kill_each_frame split: spawn_outcome.splits option.splits)

lemma exited_step:
  "\<not> exited s \<Longrightarrow> exited (step s e) \<Longrightarrow> e = EvListenerClosed \<and> listener s = ListenerClosing"
  by (cases e)
     (auto simp add: step_def ws_on_close_def ws_on_error_def split: if_splits option.splits)

lemma terminalId_update_readyState [simp]:
  "terminalId (xs[c := (xs ! c)\<lparr>readyState := r\<rparr>] ! c') = terminalId (xs ! c')"
  by (cases "c' = c"; cases "c < length xs") (simp_all add: list_update_beyond)

lemma terminal_update_readyState [simp]:
  "terminal (xs[c := (xs ! c)\<lparr>readyState := r\<rparr>] ! c') = terminal (xs ! c')"
  by (cases "c' = c"; cases "c < length xs") (simp_all add: list_update_beyond)

lemma ws_close_nth [simp]:
  "terminalId (conns (ws_close c s) ! c') = terminalId (conns s ! c')"
  "terminal (conns (ws_close c s) ! c') = terminal (conns s ! c')"
  by (simp_all add: ws_close_def Let_def)

lemma ws_close_not_open [simp]:
  "c < length (conns s) \<Longrightarrow> readyState (conns (ws_close c s) ! c) \<noteq> OPEN"
  by (simp add: ws_close_def Let_def)

lemma kill_registered_simps [simp]:
  "conns (kill_registered c s) = conns s"
  "listener (kill_registered c s) = listener s"
  "console (kill_registered c s) = console s"
  "Map_get (terminals (kill_registered c s)) (terminalId (conns s ! c)) = None"
  by (simp_all add: kill_registered_def Let_def split: option.splits)

lemma kill_registered_absent:
  "Map_get (terminals s) (terminalId (conns s ! c)) = None \<Longrightarrow> kill_registered c s = s"
  by (simp add: kill_registered_def)

lemma terminal_onExit_simps [simp]:
  "listener (terminal_onExit c code signal s) = listener s"
  "console (terminal_onExit c code signal s) = console s @ [LogExit code signal]"
  "terminals (terminal_onExit c code signal s) = Map_delete (terminalId (conns s ! c)) (terminals s)"
  "length (conns (terminal_onExit c code signal s)) = length (conns s)"
  "terminalId (conns (terminal_onExit c code signal s) ! c') = terminalId (conns s ! c')"
  "terminal (conns (terminal_onExit c code signal s) ! c') = terminal (conns s ! c')"
  by (simp_all add: terminal_onExit_def Let_def)

lemma terminal_onExit_absent:
  assumes "Map_get (terminals s) (terminalId (conns s ! c)) = None"
    and "readyState (conns s ! c) \<noteq> OPEN"
  shows "terminal_onExit c code signal s = console_log (LogExit code signal) s"
  using assms by (simp add: terminal_onExit_def Let_def Map_delete_absent console_log_def)

lemma keys_Map_set: "fst ` set (Map_set k v m) = insert k (fst ` set m)"
proof (induction m)
  case Nil
  then show ?case by simp
next
  case (Cons p m)
  then show ?case by (cases p) (simp add: insert_commute)
qed

lemma keys_Map_delete: "fst ` set (Map_delete k m) = fst ` set m - {k}"
proof (induction m)
  case Nil
  then show ?case by simp
next
  case (Cons p m)
  then show ?case by (cases p) (simp add: insert_Diff_if)
qed

lemma distinct_Map_set: "distinct (map fst m) \<Longrightarrow> distinct (map fst (Map_set k v m))"
  by (induction m) (auto simp add: keys_Map_set)

lemma distinct_Map_delete: "distinct (map fst m) \<Longrightarrow> distinct (map fst (Map_delete k m))"
  by (induction m) (auto simp add: keys_Map_delete)

lemma terminals_on_connection:
  "terminals (on_connection req env s) =
     (case spawn_result env of
        Spawned pid \<Rightarrow> Map_set (generateId (rnd env)) (length (conns s)) (terminals s)
      | _ \<Rightarrow> terminals s)"
  by (simp add: on_connection_def catch_spawn_def Let_def split: spawn_outcome.splits)

lemma terminals_kill_registered:
  "terminals (kill_registered c s) = Map_delete (terminalId (conns s ! c)) (terminals s)"
  by (simp add: kill_registered_def Let_def Map_delete_absent split: option.splits)

lemma terminals_frame [simp]:
  "terminals (terminal_onData c d s) = terminals s"
  "terminals (ws_on_message c t parsed thrown s) = terminals s"
  "terminals (on_SIGINT s) = terminals s"
  "terminals (wss_close_callback s) = terminals s"
  by (simp_all add: terminal_onData_def ws_on_message_def on_SIGINT_def wss_close_def
      wss_close_callback_def Let_def foldl_kill_each_frame split: option.splits)

text \<open>How one event changes the registry.\<close>

lemma terminals_step:
  "terminals (step s e) =
     (if exited s then terminals s
      else case e of
        EvConnection req env \<Rightarrow>
          (case spawn_result env of
             Spawned pid \<Rightarrow> Map_set (generateId (rnd env)) (length (conns s)) (terminals s)
           | _ \<Rightarrow> terminals s)
      | EvExit c code signal \<Rightarrow>
          (if c < length (conns s) \<and> terminal (conns s ! c) \<noteq> None
           then Map_delete (terminalId (conns s ! c)) (terminals s) else terminals s)
      | EvClose c \<Rightarrow>
          (if c < length (conns s)
           then Map_delete (terminalId (conns s ! c)) (terminals s) else terminals s)
      | EvError c \<Rightarrow>
          (if c < length (conns s)
           then Map_delete (terminalId (conns s ! c)) (terminals s) else terminals s)
      | _ \<Rightarrow> terminals s)"
  by (cases e)
     (auto simp add: step_def terminals_on_connection terminals_kill_registered
        ws_on_close_def ws_on_error_def split: option.splits)

lemma distinct_step:
  "distinct (map fst (terminals s)) \<Longrightarrow> distinct (map fst (terminals (step s e)))"
  by (cases e) (auto simp add: terminals_step distinct_Map_set distinct_Map_delete split: spawn_outcome.splits)

lemma distinct_foldl_step:
  "distinct (map fst (terminals s)) \<Longrightarrow> distinct (map fst (terminals (foldl step s es)))"
  by (induction es arbitrary: s) (simp_all add: distinct_step)

lemma registry_keys_distinct: "distinct (map fst (terminals (run es)))"
  unfolding run_def by (rule distinct_foldl_step) (simp add: init_def)

lemma dimensions_append:
  "dimensions t (es @ es') = foldl (\<lambda>d. resized d t) (dimensions t es) es'"
  by (simp add: dimensions_def)

lemma resized_kills: "foldl (\<lambda>d. resized d t) d (map (\<lambda>entry. Kill (snd entry)) m) = d"
  by (induction m) simp_all

lemma dimensions_connect:
  "dimensions (length (conns s)) (effects (on_connection req env s)) =
     (case spawn_result env of
        CwdThrows message \<Rightarrow> dimensions (length (conns s)) (effects s)
      | _ \<Rightarrow> Some (JNum 80, JNum 30))"
  by (simp add: on_connection_def Let_def dimensions_append pty_options_def
      split: spawn_outcome.splits)

lemma effects_on_connection:
  "\<exists>m. effects (on_connection req env s) =
     effects s @
       (case spawn_result env of
          CwdThrows x \<Rightarrow> []
        | _ \<Rightarrow> [Spawn (length (conns s)) (select_shell env) pty_options]) @
       Send (length (conns s)) m #
       (case spawn_result env of Spawned p \<Rightarrow> [] | _ \<Rightarrow> [Close (length (conns s))])"
  by (simp add: on_connection_def Let_def split: spawn_outcome.splits)

lemma dims_connection:
  "t \<noteq> length (conns s) \<Longrightarrow> dimensions t (effects (on_connection req env s)) = dimensions t (effects s)"
  using effects_on_connection[of req env s]
  by (auto simp add: dimensions_append split: spawn_outcome.splits)

lemma dims_onData: "dimensions t (effects (terminal_onData c d s)) = dimensions t (effects s)"
  by (simp add: terminal_onData_def dimensions_append)

lemma dims_onExit: "dimensions t (effects (terminal_onExit c code signal s)) = dimensions t (effects s)"
  by (simp add: terminal_onExit_def dimensions_append Let_def)

lemma dims_kill_registered: "dimensions t (effects (kill_registered c s)) = dimensions t (effects s)"
  by (simp add: kill_registered_def dimensions_append Let_def split: option.splits)

lemma dims_SIGINT: "dimensions t (effects (on_SIGINT s)) = dimensions t (effects s)"
  by (simp add: on_SIGINT_def wss_close_def Let_def dimensions_append foldl_kill_each_effects
      foldl_kill_each_frame resized_kills)

lemma dims_message:
  assumes "dimensions t (effects (ws_on_message c t' parsed thrown s)) \<noteq> dimensions t (effects s)"
  shows "t' = t \<and> (\<exists>data. parsed = Some data \<and> js_member data ''type'' = Some (JStr ''resize''))"
  using assms
  by (auto simp add: ws_on_message_def dimensions_append Let_def split: option.splits if_splits)

lemma dimensions_step:
  assumes "dimensions t (effects (step s e)) \<noteq> dimensions t (effects s)"
  shows "(\<exists>req env. e = EvConnection req env \<and> t = length (conns s))
       \<or> (\<exists>c data thrown. e = EvMessage c (Some data) thrown
              \<and> js_member data ''type'' = Some (JStr ''resize'')
              \<and> c < length (conns s) \<and> terminal (conns s ! c) = Some t)"
proof (cases e)
  case (EvConnection req env)
  then show ?thesis using assms dims_connection[of t s req env]
    by (auto simp add: step_def split: if_splits)
next
  case (EvMessage c parsed thrown)
  then show ?thesis using assms dims_message[of t c _ parsed thrown s]
    by (auto simp add: step_def split: if_splits option.splits)
next
  case (EvListenerClosed)
  then show ?thesis using assms
    by (auto simp add: step_def wss_close_callback_def Let_def dimensions_append split: if_splits)
qed (use assms in \<open>auto simp add: step_def dims_onData dims_onExit dims_kill_registered dims_SIGINT
       ws_on_close_def ws_on_error_def split: if_splits\<close>)

lemma Map_get_delete_None: "Map_get m k = None \<Longrightarrow> Map_get (Map_delete k' m) k = None"
  by (induction m) auto

lemma absent_step:
  assumes "Map_get (terminals s) k = None" and "\<not> reissues k e"
  shows "Map_get (terminals (step s e)) k = None"
  using assms
  by (cases e) (auto simp add: terminals_step reissues_def Map_get_delete_None Map_get_set_other
       split: spawn_outcome.splits)

lemma conns_on_connection:
  "conns (on_connection req env s) =
     conns s @ [\<lparr>readyState = (case spawn_result env of Spawned p \<Rightarrow> OPEN | _ \<Rightarrow> CLOSING),
                 terminalId = generateId (rnd env),
                 terminal = (case spawn_result env of
                               Spawned p \<Rightarrow> Some (length (conns s)) | _ \<Rightarrow> None)\<rparr>]"
  by (simp add: on_connection_def catch_spawn_def Let_def ws_close_def nth_append
      split: spawn_outcome.splits)

lemma conns_frame [simp]:
  "conns (terminal_onData c d s) = conns s"
  "conns (ws_on_message c t parsed thrown s) = conns s"
  "conns (on_SIGINT s) = conns s"
  "conns (wss_close_callback s) = conns s"
  by (simp_all add: terminal_onData_def ws_on_message_def on_SIGINT_def wss_close_def
      wss_close_callback_def Let_def foldl_kill_each_frame split: option.splits)

lemma conns_onExit:
  "conns (terminal_onExit c code signal s) =
     (if readyState (conns s ! c) = OPEN
      then (conns s)[c := (conns s ! c)\<lparr>readyState := CLOSING\<rparr>] else conns s)"
  by (simp add: terminal_onExit_def Let_def ws_close_def)

text \<open>How one event changes the sockets.\<close>

lemma conns_step:
  "conns (step s e) =
     (if exited s then conns s
      else case e of
        EvConnection req env \<Rightarrow> conns (on_connection req env s)
      | EvExit c code signal \<Rightarrow>
          (if c < length (conns s) \<and> terminal (conns s ! c) \<noteq> None
              \<and> readyState (conns s ! c) = OPEN
           then (conns s)[c := (conns s ! c)\<lparr>readyState := CLOSING\<rparr>] else conns s)
      | EvClosing c \<Rightarrow>
          (if c < length (conns s) \<and> readyState (conns s ! c) = OPEN
           then (conns s)[c := (conns s ! c)\<lparr>readyState := CLOSING\<rparr>] else conns s)
      | EvClose c \<Rightarrow>
          (if c < length (conns s)
           then (conns s)[c := (conns s ! c)\<lparr>readyState := CLOSED\<rparr>] else conns s)
      | _ \<Rightarrow> conns s)"
  by (cases e)
     (auto simp add: step_def conns_onExit ws_on_close_def ws_on_error_def split: option.splits)

lemma closed_step:
  assumes "c < length (conns s)"
  shows "c < length (conns (step s e))
       \<and> terminalId (conns (step s e) ! c) = terminalId (conns s ! c)
       \<and> terminal (conns (step s e) ! c) = terminal (conns s ! c)
       \<and> (readyState (conns s ! c) = CLOSED \<longrightarrow> readyState (conns (step s e) ! c) = CLOSED)"
  using assms
  by (cases e)
     (auto simp add: conns_step conns_on_connection nth_append nth_list_update split: spawn_outcome.splits)


lemma exited_foldl_step: "exited s \<Longrightarrow> foldl step s es = s"
  by (induction es) (simp_all add: step_def)

text \<open>
  Once a socket is closed and its identifier is absent from the registry, both stay so
  through any events among which no new session is given the same identifier.
\<close>

lemma closed_absent_foldl:
  assumes "c < length (conns s)" and "readyState (conns s ! c) = CLOSED"
    and "Map_get (terminals s) (terminalId (conns s ! c)) = None"
    and "list_all (\<lambda>e. \<not> reissues (terminalId (conns s ! c)) e) es"
  shows "c < length (conns (foldl step s es))
       \<and> terminalId (conns (foldl step s es) ! c) = terminalId (conns s ! c)
       \<and> terminal (conns (foldl step s es) ! c) = terminal (conns s ! c)
       \<and> readyState (conns (foldl step s es) ! c) = CLOSED
       \<and> Map_get (terminals (foldl step s es)) (terminalId (conns s ! c)) = None"
  using assms
proof (induction es arbitrary: s)
  case Nil
  then show ?case by simp
next
  case (Cons e es)
  have st: "c < length (conns (step s e))"
    "terminalId (conns (step s e) ! c) = terminalId (conns s ! c)"
    "terminal (conns (step s e) ! c) = terminal (conns s ! c)"
    "readyState (conns (step s e) ! c) = CLOSED"
    using closed_step[OF Cons.prems(1), of e] Cons.prems(2) by simp_all
  have ab: "Map_get (terminals (step s e)) (terminalId (conns s ! c)) = None"
    using Cons.prems(3,4) by (simp add: absent_step)
  have "c < length (conns (foldl step (step s e) es))
       \<and> terminalId (conns (foldl step (step s e) es) ! c) = terminalId (conns (step s e) ! c)
       \<and> terminal (conns (foldl step (step s e) es) ! c) = terminal (conns (step s e) ! c)
       \<and> readyState (conns (foldl step (step s e) es) ! c) = CLOSED
       \<and> Map_get (terminals (foldl step (step s e) es)) (terminalId (conns (step s e) ! c)) = None"
    using st ab Cons.prems(4) by (intro Cons.IH) simp_all
  then show ?case using st by simp
qed

lemma absent_foldl:
  assumes "c < length (conns s)"
    and "Map_get (terminals s) (terminalId (conns s ! c)) = None"
    and "list_all (\<lambda>e. \<not> reissues (terminalId (conns s ! c)) e) es"
  shows "c < length (conns (foldl step s es))
       \<and> terminalId (conns (foldl step s es) ! c) = terminalId (conns s ! c)
       \<and> Map_get (terminals (foldl step s es)) (terminalId (conns s ! c)) = None"
  using assms
proof (induction es arbitrary: s)
  case Nil
  then show ?case by simp
next
  case (Cons e es)
  have st: "c < length (conns (step s e))"
    "terminalId (conns (step s e) ! c) = terminalId (conns s ! c)"
    using closed_step[OF Cons.prems(1), of e] by simp_all
  have ab: "Map_get (terminals (step s e)) (terminalId (conns s ! c)) = None"
    using Cons.prems(2,3) by (simp add: absent_step)
  have "c < length (conns (foldl step (step s e) es))
       \<and> terminalId (conns (foldl step (step s e) es) ! c) = terminalId (conns (step s e) ! c)
       \<and> Map_get (terminals (foldl step (step s e) es)) (terminalId (conns (step s e) ! c)) = None"
    using st ab Cons.prems(3) by (intro Cons.IH) simp_all
  then show ?case using st by simp
qed

text \<open>The example state, computed.\<close>

lemma one_session_eq:
  "one_session =
     \<lparr>terminals = [(''4fzyo82mv'', 0)],
      conns = [\<lparr>readyState = OPEN, terminalId = ''4fzyo82mv'', terminal = Some 0\<rparr>],
      listener = Listening, exited = False,
      effects = [Spawn 0 ''/bin/zsh'' pty_options,
                 Send 0 (JObj [(''type'', JStr ''connected''),
                               (''terminalId'', JStr ''4fzyo82mv''),
                               (''shell'', JStr ''/bin/zsh''), (''pid'', JNum 4242)])],
      console = [LogConnection, LogSpawned 4242 ''/bin/zsh'']\<rparr>"
  by (simp add: one_session_def run_def step_def init_def on_connection_def example_accept_def
      generateId_def select_shell_def JSON_stringify_def ws_send_def do_effect_def
      console_log_def Let_def)

lemma two_sessions_eq:
  "two_sessions =
     \<lparr>terminals = [(''4fzyo82mv'', 1)],
      conns = [\<lparr>readyState = OPEN, terminalId = ''4fzyo82mv'', terminal = Some 0\<rparr>,
               \<lparr>readyState = OPEN, terminalId = ''4fzyo82mv'', terminal = Some 1\<rparr>],
      listener = Listening, exited = False,
      effects = [Spawn 0 ''/bin/zsh'' pty_options,
                 Send 0 (JObj [(''type'', JStr ''connected''),
                               (''terminalId'', JStr ''4fzyo82mv''),
                               (''shell'', JStr ''/bin/zsh''), (''pid'', JNum 4242)]),
                 Spawn 1 ''/bin/zsh'' pty_options,
                 Send 1 (JObj [(''type'', JStr ''connected''),
                               (''terminalId'', JStr ''4fzyo82mv''),
                               (''shell'', JStr ''/bin/zsh''), (''pid'', JNum 4243)])],
      console = [LogConnection, LogSpawned 4242 ''/bin/zsh'',
                 LogConnection, LogSpawned 4243 ''/bin/zsh'']\<rparr>"
  by (simp add: two_sessions_def run_def step_def init_def on_connection_def example_accept_def
      generateId_def select_shell_def JSON_stringify_def ws_send_def do_effect_def
      console_log_def Let_def)

lemma exit_then_reconnect_eq:
  "exit_then_reconnect =
     \<lparr>terminals = [(''4fzyo82mv'', 1)],
      conns = [\<lparr>readyState = CLOSING, terminalId = ''4fzyo82mv'', terminal = Some 0\<rparr>,
               \<lparr>readyState = OPEN, terminalId = ''4fzyo82mv'', terminal = Some 1\<rparr>],
      listener = Listening, exited = False,
      effects = [Spawn 0 ''/bin/zsh'' pty_options,
                 Send 0 (JObj [(''type'', JStr ''connected''),
                               (''terminalId'', JStr ''4fzyo82mv''),
                               (''shell'', JStr ''/bin/zsh''), (''pid'', JNum 4242)]),
                 Send 0 (JObj [(''type'', JStr ''exit''),
                               (''code'', JObj [(''exitCode'', JNum 0), (''signal'', JNum 0)])]),
                 Close 0,
                 Spawn 1 ''/bin/zsh'' pty_options,
                 Send 1 (JObj [(''type'', JStr ''connected''),
                               (''terminalId'', JStr ''4fzyo82mv''),
                               (''shell'', JStr ''/bin/zsh''), (''pid'', JNum 4243)])],
      console = [LogConnection, LogSpawned 4242 ''/bin/zsh'',
                 LogExit (JObj [(''exitCode'', JNum 0), (''signal'', JNum 0)]) JUndefined,
                 LogConnection, LogSpawned 4243 ''/bin/zsh'']\<rparr>"
  by (simp add: exit_then_reconnect_def one_session_eq step_def terminal_onExit_def
      on_connection_def example_accept_def generateId_def select_shell_def JSON_stringify_def
      ws_send_def ws_close_def set_readyState_def do_effect_def console_log_def Let_def)

lemma close_then_reconnect_eq:
  "close_then_reconnect =
     \<lparr>terminals = [(''4fzyo82mv'', 1)],
      conns = [\<lparr>readyState = CLOSED, terminalId = ''4fzyo82mv'', terminal = Some 0\<rparr>,
               \<lparr>readyState = OPEN, terminalId = ''4fzyo82mv'', terminal = Some 1\<rparr>],
      listener = Listening, exited = False,
      effects = [Spawn 0 ''/bin/zsh'' pty_options,
                 Send 0 (JObj [(''type'', JStr ''connected''),
                               (''terminalId'', JStr ''4fzyo82mv''),
                               (''shell'', JStr ''/bin/zsh''), (''pid'', JNum 4242)]),
                 Kill 0,
                 Spawn 1 ''/bin/zsh'' pty_options,
                 Send 1 (JObj [(''type'', JStr ''connected''),
                               (''terminalId'', JStr ''4fzyo82mv''),
                               (''shell'', JStr ''/bin/zsh''), (''pid'', JNum 4243)])],
      console = [LogConnection, LogSpawned 4242 ''/bin/zsh'', LogDisconnected,
                 LogConnection, LogSpawned 4243 ''/bin/zsh'']\<rparr>"
  by (simp add: close_then_reconnect_def one_session_eq step_def ws_on_close_def
      kill_registered_def on_connection_def example_accept_def generateId_def select_shell_def
      JSON_stringify_def ws_send_def set_readyState_def do_effect_def console_log_def Let_def)

section \<open>Process exit\<close>

text \<open>
  What the exit handler does on an open socket, for any arguments: one envelope built from
  the two parameters, then \<^verbatim>\<open>ws.close()\<close>, and the identifier is gone from the registry.
\<close>

lemma exit_envelope:
  assumes "c < length (conns s)" and "terminal (conns s ! c) = Some t"
    and "readyState (conns s ! c) = OPEN" and "\<not> exited s"
  shows "effects (step s (EvExit c code signal)) =
           effects s @ [Send c (JSON_stringify [(''type'', JStr ''exit''), (''code'', code),
                                                (''signal'', signal)]),
                        Close c]
       \<and> readyState (conns (step s (EvExit c code signal)) ! c) = CLOSING
       \<and> Map_get (terminals (step s (EvExit c code signal))) (terminalId (conns s ! c)) = None"
  using assms
  by (simp add: step_def terminal_onExit_def ws_close_def Let_def)

text \<open>
  Were the listener called with the two arguments 0 and \<^verbatim>\<open>null\<close>, the envelope would be
  \<^verbatim>\<open>{"type":"exit","code":0,"signal":null}\<close>.
\<close>

lemma exit_envelope_two_arguments:
  assumes "c < length (conns s)" and "terminal (conns s ! c) = Some t"
    and "readyState (conns s ! c) = OPEN" and "\<not> exited s"
  shows "effects (step s (EvExit c (JNum 0) JNull)) =
           effects s @ [Send c (JObj [(''type'', JStr ''exit''), (''code'', JNum 0),
                                      (''signal'', JNull)]),
                        Close c]"
  using exit_envelope[OF assms, of "JNum 0" JNull] by (simp add: JSON_stringify_def)

text \<open>
  C2. The \<^verbatim>\<open>onExit\<close> event of the pseudo-terminal library calls its listener with one
  argument, the object \<^verbatim>\<open>{exitCode, signal}\<close>, so the listener's second parameter is
  \<^verbatim>\<open>undefined\<close>. When the shell of a connected client exits with code 0, the one
  envelope sent carries that object as \<^verbatim>\<open>code\<close> and has no \<^verbatim>\<open>signal\<close>: it is not
  \<^verbatim>\<open>{"type":"exit","code":0,"signal":null}\<close>. The server then calls \<^verbatim>\<open>ws.close()\<close>
  and the identifier is no longer in the registry.
\<close>

theorem exit_envelope_carries_event_object:
  "effects (step one_session
      (EvExit 0 (JObj [(''exitCode'', JNum 0), (''signal'', JNum 0)]) JUndefined)) =
     effects one_session @
       [Send 0 (JObj [(''type'', JStr ''exit''),
                      (''code'', JObj [(''exitCode'', JNum 0), (''signal'', JNum 0)])]),
        Close 0]
   \<and> JObj [(''type'', JStr ''exit''),
            (''code'', JObj [(''exitCode'', JNum 0), (''signal'', JNum 0)])] \<noteq>
       JObj [(''type'', JStr ''exit''), (''code'', JNum 0), (''signal'', JNull)]
   \<and> readyState (conns (step one_session
        (EvExit 0 (JObj [(''exitCode'', JNum 0), (''signal'', JNum 0)]) JUndefined)) ! 0) = CLOSING
   \<and> terminals (step one_session
        (EvExit 0 (JObj [(''exitCode'', JNum 0), (''signal'', JNum 0)]) JUndefined)) = []"
  by (simp add: one_session_eq step_def terminal_onExit_def ws_close_def JSON_stringify_def
      Let_def)

section \<open>Transport close and error\<close>

text \<open>
  When the registry holds a session's own pseudo-terminal under its identifier, the close
  and the error handler of that session make one call, \<^verbatim>\<open>terminal.kill()\<close> on that
  pseudo-terminal, and delete the identifier; no envelope is sent.
\<close>

lemma close_kills_own_when_registered:
  assumes "c < length (conns s)" and "\<not> exited s"
    and "Map_get (terminals s) (terminalId (conns s ! c)) = Some t"
  shows "effects (step s (EvClose c)) = effects s @ [Kill t]
       \<and> terminals (step s (EvClose c)) = Map_delete (terminalId (conns s ! c)) (terminals s)
       \<and> effects (step s (EvError c)) = effects s @ [Kill t]
       \<and> terminals (step s (EvError c)) = Map_delete (terminalId (conns s ! c)) (terminals s)"
  using assms
  by (simp add: step_def ws_on_close_def ws_on_error_def kill_registered_def Let_def)

text \<open>
  C4. The handlers look the pseudo-terminal up under the identifier, and identifiers are not
  unique. With two active sessions under one identifier, the registry holds the
  pseudo-terminal of the second. When the socket of the first closes, or reports an error
  (the socket is then in its closing state), the handler kills the pseudo-terminal of the
  second session, not its own, and deletes the shared identifier; the second session keeps
  an open socket. No envelope is sent.
\<close>

theorem close_kills_other_session_on_collision:
  "Active two_sessions 0 \<and> terminal (conns two_sessions ! 0) = Some 0
   \<and> readyState (conns two_sessions ! 0) = OPEN
   \<and> effects (step two_sessions (EvClose 0)) = effects two_sessions @ [Kill 1]
   \<and> terminals (step two_sessions (EvClose 0)) = []
   \<and> effects (step (step two_sessions (EvClosing 0)) (EvError 0)) =
        effects two_sessions @ [Kill 1]
   \<and> terminals (step (step two_sessions (EvClosing 0)) (EvError 0)) = []
   \<and> Active (step two_sessions (EvClose 0)) 1
   \<and> readyState (conns (step two_sessions (EvClose 0)) ! 1) = OPEN"
  by (simp add: two_sessions_eq Active_def step_def ws_on_close_def ws_on_error_def
      kill_registered_def Let_def)

section \<open>Spawn failure\<close>

text \<open>
  C5. When \<^verbatim>\<open>pty.spawn\<close> throws, the connection handler has called it once; it sends
  an \<^verbatim>\<open>error\<close> envelope whose message ends with the message of the exception, calls
  \<^verbatim>\<open>ws.close()\<close>, and leaves the registry as it was; the new socket has no
  pseudo-terminal. When \<^verbatim>\<open>process.cwd()\<close> throws before the call, the same happens
  without any call of \<^verbatim>\<open>pty.spawn\<close>.
\<close>

theorem spawn_failure_leaves_registry:
  "(spawn_result env = SpawnThrows message \<longrightarrow>
      terminals (on_connection req env s) = terminals s
    \<and> effects (on_connection req env s) = effects s @
         [Spawn (length (conns s)) (select_shell env) pty_options,
          Send (length (conns s))
            (JObj [(''type'', JStr ''error''),
                   (''message'', JStr (spawn_failed_prefix @ message))]),
          Close (length (conns s))]
    \<and> conns (on_connection req env s) = conns s @
         [\<lparr>readyState = CLOSING, terminalId = generateId (rnd env), terminal = None\<rparr>])
   \<and> (spawn_result env = CwdThrows message \<longrightarrow>
      terminals (on_connection req env s) = terminals s
    \<and> effects (on_connection req env s) = effects s @
         [Send (length (conns s))
            (JObj [(''type'', JStr ''error''),
                   (''message'', JStr (spawn_failed_prefix @ message))]),
          Close (length (conns s))]
    \<and> conns (on_connection req env s) = conns s @
         [\<lparr>readyState = CLOSING, terminalId = generateId (rnd env), terminal = None\<rparr>])"
  by (simp add: on_connection_def catch_spawn_def ws_close_def JSON_stringify_def Let_def
      nth_append)

theorem spawn_failure_leaves_registry_witness:
  "spawn_result \<lparr>rnd = ''0.k3'', platform = ''linux'', env_SHELL = None,
                  spawn_result = SpawnThrows ''ENOENT''\<rparr> = SpawnThrows ''ENOENT''
   \<and> terminals (on_connection JNull
        \<lparr>rnd = ''0.k3'', platform = ''linux'', env_SHELL = None,
           spawn_result = SpawnThrows ''ENOENT''\<rparr>
        one_session) = [(''4fzyo82mv'', 0)]
   \<and> effects (on_connection JNull
        \<lparr>rnd = ''0.k3'', platform = ''linux'', env_SHELL = None,
           spawn_result = SpawnThrows ''ENOENT''\<rparr>
        one_session) = effects one_session @
          [Spawn 1 ''/bin/bash'' pty_options,
           Send 1 (JObj [(''type'', JStr ''error''),
                         (''message'', JStr (spawn_failed_prefix @ ''ENOENT''))]),
           Close 1]
   \<and> spawn_result \<lparr>rnd = ''0.k3'', platform = ''linux'', env_SHELL = None,
                  spawn_result = CwdThrows ''uv_cwd''\<rparr> = CwdThrows ''uv_cwd''
   \<and> terminals (on_connection JNull
        \<lparr>rnd = ''0.k3'', platform = ''linux'', env_SHELL = None,
           spawn_result = CwdThrows ''uv_cwd''\<rparr>
        one_session) = [(''4fzyo82mv'', 0)]
   \<and> effects (on_connection JNull
        \<lparr>rnd = ''0.k3'', platform = ''linux'', env_SHELL = None,
           spawn_result = CwdThrows ''uv_cwd''\<rparr>
        one_session) = effects one_session @
          [Send 1 (JObj [(''type'', JStr ''error''),
                         (''message'', JStr (spawn_failed_prefix @ ''uv_cwd''))]),
           Close 1]"
  using spawn_failure_leaves_registry[of
      "\<lparr>rnd = ''0.k3'', platform = ''linux'', env_SHELL = None,
         spawn_result = SpawnThrows ''ENOENT''\<rparr>"
      "''ENOENT''" JNull one_session]
    spawn_failure_leaves_registry[of
      "\<lparr>rnd = ''0.k3'', platform = ''linux'', env_SHELL = None,
         spawn_result = CwdThrows ''uv_cwd''\<rparr>"
      "''uv_cwd''" JNull one_session]
  by (simp add: one_session_eq select_shell_def)

section \<open>Inbound messages\<close>

lemma step_input:
  assumes "c < length (conns s)" and "terminal (conns s ! c) = Some t" and "\<not> exited s"
  shows "step s (EvMessage c (Some (input_envelope p)) False) = do_effect (Write t (JStr p)) s"
  using assms by (simp add: step_def ws_on_message_def input_envelope_def)

lemma inputs_effects:
  assumes "c < length (conns s)" and "terminal (conns s ! c) = Some t" and "\<not> exited s"
  shows "effects (foldl step s (map (\<lambda>p. EvMessage c (Some (input_envelope p)) False) ps)) =
           effects s @ map (\<lambda>p. Write t (JStr p)) ps"
  using assms
proof (induction ps arbitrary: s)
  case Nil
  then show ?case by simp
next
  case (Cons p ps)
  let ?s1 = "do_effect (Write t (JStr p)) s"
  have "effects (foldl step ?s1 (map (\<lambda>p. EvMessage c (Some (input_envelope p)) False) ps)) =
          effects ?s1 @ map (\<lambda>p. Write t (JStr p)) ps"
    using Cons.prems by (intro Cons.IH) simp_all
  then show ?case using Cons.prems by (simp add: step_input)
qed

lemma written_append: "written t (es @ es') = written t es @ written t es'"
  by (induction t es rule: written.induct) auto

lemma written_writes: "written t (map (\<lambda>p. Write t (JStr p)) ps) = concat ps"
  by (induction ps) auto

text \<open>
  C7. For a session whose pseudo-terminal was spawned, a sequence of \<^verbatim>\<open>input\<close>
  envelopes makes the server call \<^verbatim>\<open>terminal.write\<close> once per envelope, with the payload
  unchanged and in the order of receipt, and nothing else: the pseudo-terminal is given the
  concatenation of the payloads.
\<close>

theorem inputs_forwarded_in_order:
  assumes "c < length (conns s)" and "terminal (conns s ! c) = Some t" and "\<not> exited s"
  shows "effects (foldl step s (map (\<lambda>p. EvMessage c (Some (input_envelope p)) False) ps)) =
           effects s @ map (\<lambda>p. Write t (JStr p)) ps
       \<and> written t (effects (foldl step s (map (\<lambda>p. EvMessage c (Some (input_envelope p)) False) ps))) =
           written t (effects s) @ concat ps"
  using inputs_effects[OF assms] by (simp add: written_append written_writes)

theorem inputs_forwarded_in_order_witness:
  "0 < length (conns one_session) \<and> terminal (conns one_session ! 0) = Some 0
   \<and> \<not> exited one_session
   \<and> effects (foldl step one_session
        (map (\<lambda>p. EvMessage 0 (Some (input_envelope p)) False) [''a'', ''b'', ''c''])) =
        effects one_session @ [Write 0 (JStr ''a''), Write 0 (JStr ''b''), Write 0 (JStr ''c'')]
   \<and> written 0 (effects (foldl step one_session
        (map (\<lambda>p. EvMessage 0 (Some (input_envelope p)) False) [''a'', ''b'', ''c'']))) = ''abc''"
  using inputs_forwarded_in_order[of 0 one_session 0 "[''a'', ''b'', ''c'']"]
  by (simp add: one_session_eq)

text \<open>
  C8. For a session whose pseudo-terminal was spawned, a message that does not parse, or
  whose \<^verbatim>\<open>type\<close> is neither \<^verbatim>\<open>input\<close> nor \<^verbatim>\<open>resize\<close>, adds one line to the console
  and changes nothing else: the registry, the sockets, the listener and the calls made are
  as before, so an active session stays active.
\<close>

theorem unrecognized_message_only_logged:
  assumes "c < length (conns s)" and "terminal (conns s ! c) = Some t" and "\<not> exited s"
    and "parsed = None \<or>
         (\<exists>data. parsed = Some data \<and> js_member data ''type'' \<noteq> Some (JStr ''input'')
                 \<and> js_member data ''type'' \<noteq> Some (JStr ''resize''))"
  shows "(\<exists>l. step s (EvMessage c parsed thrown) = s\<lparr>console := console s @ [l]\<rparr>)
       \<and> Active (step s (EvMessage c parsed thrown)) c = Active s c"
proof -
  have "\<exists>l. step s (EvMessage c parsed thrown) = s\<lparr>console := console s @ [l]\<rparr>"
    using assms
    by (auto simp add: step_def ws_on_message_def console_log_def split: option.splits)
  then show ?thesis by (auto simp add: Active_def)
qed

theorem unrecognized_message_only_logged_witness:
  "0 < length (conns one_session) \<and> terminal (conns one_session ! 0) = Some 0
   \<and> \<not> exited one_session
   \<and> js_member (JObj [(''type'', JStr ''ping'')]) ''type'' \<noteq> Some (JStr ''input'')
   \<and> js_member (JObj [(''type'', JStr ''ping'')]) ''type'' \<noteq> Some (JStr ''resize'')
   \<and> (\<exists>l. step one_session (EvMessage 0 (Some (JObj [(''type'', JStr ''ping'')])) False) =
            one_session\<lparr>console := console one_session @ [l]\<rparr>)
   \<and> (\<exists>l. step one_session (EvMessage 0 None False) =
            one_session\<lparr>console := console one_session @ [l]\<rparr>)
   \<and> Active (step one_session (EvMessage 0 None False)) 0"
  using unrecognized_message_only_logged[of 0 one_session 0
          "Some (JObj [(''type'', JStr ''ping'')])" False]
        unrecognized_message_only_logged[of 0 one_session 0 None False]
  by (simp add: one_session_eq Active_def)

section \<open>Shutdown\<close>

text \<open>
  C6. The \<^verbatim>\<open>SIGINT\<close> handler kills the pseudo-terminal of every entry of the registry,
  in the order of the registry, and calls \<^verbatim>\<open>wss.close\<close> after the last of them; the
  handler itself does not end the process. The process ends only in the callback of
  \<^verbatim>\<open>wss.close\<close>, which runs when the closing listener reports that it has closed.
\<close>

theorem shutdown_kills_then_closes_listener:
  "effects (on_SIGINT s) =
     effects s @ map (\<lambda>entry. Kill (snd entry)) (terminals s) @ [ListenerClose]
   \<and> exited (on_SIGINT s) = exited s
   \<and> (\<forall>e. \<not> exited s \<and> exited (step s e) \<longrightarrow>
            e = EvListenerClosed \<and> listener s = ListenerClosing)"
proof (intro conjI allI impI)
  show "effects (on_SIGINT s) =
          effects s @ map (\<lambda>entry. Kill (snd entry)) (terminals s) @ [ListenerClose]"
    by (simp add: on_SIGINT_def wss_close_def Let_def foldl_kill_each_effects
        foldl_kill_each_frame)
  show "exited (on_SIGINT s) = exited s"
    by simp
next
  fix e
  assume "\<not> exited s \<and> exited (step s e)"
  then show "e = EvListenerClosed" and "listener s = ListenerClosing"
    using exited_step by blast+
qed

theorem shutdown_kills_then_closes_listener_witness:
  "effects (on_SIGINT one_session) = effects one_session @ [Kill 0, ListenerClose]
   \<and> \<not> exited (step one_session EvSIGINT)
   \<and> exited (step (step one_session EvSIGINT) EvListenerClosed)
   \<and> listener (step one_session EvSIGINT) = ListenerClosing"
proof -
  have a: "\<not> exited (step one_session EvSIGINT)"
    by (simp add: step_def one_session_eq)
  have b: "exited (step (step one_session EvSIGINT) EvListenerClosed)"
    by (simp add: step_def one_session_eq on_SIGINT_def wss_close_def kill_each_def
        wss_close_callback_def Let_def)
  from shutdown_kills_then_closes_listener[of "step one_session EvSIGINT"] a b
  have c: "listener (step one_session EvSIGINT) = ListenerClosing"
    by blast
  from shutdown_kills_then_closes_listener[of one_session]
  have d: "effects (on_SIGINT one_session) = effects one_session @ [Kill 0, ListenerClose]"
    by (simp add: one_session_eq)
  from a b c d show ?thesis by simp
qed

lemma effects_grow: "\<exists>new. effects (step s e) = effects s @ new"
  by (cases e)
     (auto simp add: step_def on_connection_def terminal_onData_def terminal_onExit_def
        ws_on_message_def ws_on_close_def ws_on_error_def kill_registered_def on_SIGINT_def
        wss_close_def wss_close_callback_def Let_def foldl_kill_each_effects
        foldl_kill_each_frame
        split: spawn_outcome.splits option.splits)

lemma listener_step:
  "listener (step s e) =
     (if exited s then listener s
      else case e of
        EvSIGINT \<Rightarrow> (if listener s = Listening then ListenerClosing else listener s)
      | EvListenerClosed \<Rightarrow>
          (if listener s = ListenerClosing then ListenerClosed else listener s)
      | _ \<Rightarrow> listener s)"
  by (cases e)
     (auto simp add: step_def on_connection_def terminal_onData_def
        ws_on_message_def ws_on_close_def ws_on_error_def on_SIGINT_def
        wss_close_def wss_close_callback_def Let_def foldl_kill_each_frame
        split: spawn_outcome.splits option.splits)

lemma shutdown_invariant_step:
  assumes "listener s \<noteq> Listening \<longrightarrow> ListenerClose \<in> set (effects s)"
    and "exited s \<longrightarrow> listener s = ListenerClosed"
  shows "(listener (step s e) \<noteq> Listening \<longrightarrow> ListenerClose \<in> set (effects (step s e)))
       \<and> (exited (step s e) \<longrightarrow> listener (step s e) = ListenerClosed)"
proof (cases "exited s")
  case True
  then show ?thesis using assms by (simp add: step_def)
next
  case False
  obtain new where new: "effects (step s e) = effects s @ new"
    using effects_grow by blast
  show ?thesis
  proof (cases e)
    case EvSIGINT
    then show ?thesis using False assms
      by (simp add: step_def on_SIGINT_def wss_close_def Let_def foldl_kill_each_frame)
  next
    case EvListenerClosed
    then show ?thesis using False assms new
      by (auto simp add: listener_step dest: exited_step)
  qed (use False assms new exited_step[of s e] in \<open>auto simp add: listener_step\<close>)
qed

lemma shutdown_invariant_foldl:
  assumes "listener s \<noteq> Listening \<longrightarrow> ListenerClose \<in> set (effects s)"
    and "exited s \<longrightarrow> listener s = ListenerClosed"
  shows "(listener (foldl step s es) \<noteq> Listening \<longrightarrow> ListenerClose \<in> set (effects (foldl step s es)))
       \<and> (exited (foldl step s es) \<longrightarrow> listener (foldl step s es) = ListenerClosed)"
  using assms
proof (induction es arbitrary: s)
  case Nil
  then show ?case by simp
next
  case (Cons e es)
  from shutdown_invariant_step[OF Cons.prems, of e] show ?case
    using Cons.IH[of "step s e"] by simp
qed

text \<open>In every run, the process has exited only after \<^verbatim>\<open>wss.close\<close> was called.\<close>

lemma exit_only_after_listener_close:
  "exited (run es) \<Longrightarrow> ListenerClose \<in> set (effects (run es)) \<and> listener (run es) = ListenerClosed"
  using shutdown_invariant_foldl[of init es] by (simp add: run_def init_def)

section \<open>Idempotent termination\<close>

text \<open>
  When the socket's \<^verbatim>\<open>close\<close> event and the pseudo-terminal's exit fire one right after
  the other, in either order, the second handler only prints its console line: it makes no
  call and leaves the registry as the first handler left it (after \<^verbatim>\<open>close\<close> the socket
  is \<^verbatim>\<open>CLOSED\<close>).
\<close>

lemma second_trigger_only_logs:
  assumes "c < length (conns s)" and "terminal (conns s ! c) = Some t" and "\<not> exited s"
  shows "step (step s (EvClose c)) (EvExit c code signal) =
           console_log (LogExit code signal) (step s (EvClose c))
       \<and> step (step s (EvExit c code signal)) (EvClose c) =
           console_log LogDisconnected (set_readyState c CLOSED (step s (EvExit c code signal)))"
proof (intro conjI)
  let ?s1 = "step s (EvClose c)"
  have s1: "?s1 = kill_registered c (console_log LogDisconnected (set_readyState c CLOSED s))"
    using assms by (simp add: step_def ws_on_close_def)
  have "Map_get (terminals ?s1) (terminalId (conns ?s1 ! c)) = None"
    unfolding s1
    using kill_registered_simps(4)[of c "console_log LogDisconnected (set_readyState c CLOSED s)"]
    by simp
  moreover have "readyState (conns ?s1 ! c) \<noteq> OPEN"
    unfolding s1 using assms by simp
  moreover have "c < length (conns ?s1)" "terminal (conns ?s1 ! c) \<noteq> None" "\<not> exited ?s1"
    unfolding s1 using assms by simp_all
  ultimately show "step ?s1 (EvExit c code signal) = console_log (LogExit code signal) ?s1"
    by (simp add: step_def[of ?s1] terminal_onExit_absent)
  let ?s2 = "step s (EvExit c code signal)"
  have s2: "?s2 = terminal_onExit c code signal s"
    using assms by (simp add: step_def)
  have "Map_get (terminals (console_log LogDisconnected (set_readyState c CLOSED ?s2)))
          (terminalId (conns (console_log LogDisconnected (set_readyState c CLOSED ?s2)) ! c)) = None"
    unfolding s2 by simp
  then have "kill_registered c (console_log LogDisconnected (set_readyState c CLOSED ?s2)) =
          console_log LogDisconnected (set_readyState c CLOSED ?s2)"
    by (rule kill_registered_absent)
  moreover have "c < length (conns ?s2)" "\<not> exited ?s2"
    unfolding s2 using assms by simp_all
  ultimately show
    "step ?s2 (EvClose c) = console_log LogDisconnected (set_readyState c CLOSED ?s2)"
    by (simp add: step_def[of ?s2] ws_on_close_def)
qed

text \<open>
  Idempotence with other events in between: after the first trigger, any events may follow
  that do not give the identifier to a new session; the second trigger then only prints.
\<close>

lemma exit_after_close_interleaved:
  assumes "c < length (conns s)" and "terminal (conns s ! c) = Some t" and "\<not> exited s"
    and "list_all (\<lambda>e. \<not> reissues (terminalId (conns s ! c)) e) es"
    and "\<not> exited (foldl step (step s (EvClose c)) es)"
  shows "step (foldl step (step s (EvClose c)) es) (EvExit c code signal) =
           console_log (LogExit code signal) (foldl step (step s (EvClose c)) es)"
proof -
  let ?s1 = "step s (EvClose c)"
  let ?s2 = "foldl step ?s1 es"
  have s1: "?s1 = kill_registered c (console_log LogDisconnected (set_readyState c CLOSED s))"
    using assms by (simp add: step_def ws_on_close_def)
  have a: "c < length (conns ?s1)" "readyState (conns ?s1 ! c) = CLOSED"
    "terminalId (conns ?s1 ! c) = terminalId (conns s ! c)"
    "terminal (conns ?s1 ! c) = Some t"
    unfolding s1 using assms by simp_all
  have b: "Map_get (terminals ?s1) (terminalId (conns ?s1 ! c)) = None"
    unfolding s1
    using kill_registered_simps(4)[of c "console_log LogDisconnected (set_readyState c CLOSED s)"]
    by simp
  have "c < length (conns ?s2)
       \<and> terminalId (conns ?s2 ! c) = terminalId (conns ?s1 ! c)
       \<and> terminal (conns ?s2 ! c) = terminal (conns ?s1 ! c)
       \<and> readyState (conns ?s2 ! c) = CLOSED
       \<and> Map_get (terminals ?s2) (terminalId (conns ?s1 ! c)) = None"
    using a b assms(4) by (intro closed_absent_foldl) simp_all
  then show ?thesis using a assms(5)
    by (simp add: step_def[of ?s2] terminal_onExit_absent)
qed

lemma close_after_exit_interleaved:
  assumes "c < length (conns s)" and "terminal (conns s ! c) = Some t" and "\<not> exited s"
    and "list_all (\<lambda>e. \<not> reissues (terminalId (conns s ! c)) e) es"
    and "\<not> exited (foldl step (step s (EvExit c code signal)) es)"
  shows "step (foldl step (step s (EvExit c code signal)) es) (EvClose c) =
           console_log LogDisconnected
             (set_readyState c CLOSED (foldl step (step s (EvExit c code signal)) es))"
proof -
  let ?s1 = "step s (EvExit c code signal)"
  let ?s2 = "foldl step ?s1 es"
  let ?s3 = "console_log LogDisconnected (set_readyState c CLOSED ?s2)"
  have s1: "?s1 = terminal_onExit c code signal s"
    using assms by (simp add: step_def)
  have a: "c < length (conns ?s1)" "terminalId (conns ?s1 ! c) = terminalId (conns s ! c)"
    unfolding s1 using assms by simp_all
  have b: "Map_get (terminals ?s1) (terminalId (conns ?s1 ! c)) = None"
    unfolding s1 by simp
  have c: "c < length (conns ?s2)
       \<and> terminalId (conns ?s2 ! c) = terminalId (conns ?s1 ! c)
       \<and> Map_get (terminals ?s2) (terminalId (conns ?s1 ! c)) = None"
    using a b assms(4) by (intro absent_foldl) simp_all
  then have "Map_get (terminals ?s3) (terminalId (conns ?s3 ! c)) = None"
    by simp
  then have "kill_registered c ?s3 = ?s3"
    by (rule kill_registered_absent)
  then show ?thesis using c assms(5)
    by (simp add: step_def[of ?s2] ws_on_close_def)
qed

text \<open>
  C3. The second trigger is not idle when the identifier has been given to a new session in
  between. After the shell of the first session exits (entry deleted, envelope sent,
  \<^verbatim>\<open>ws.close()\<close> called) a second client connects and draws the same identifier; the
  \<^verbatim>\<open>close\<close> event of the first socket then finds the pseudo-terminal of the second
  session in the registry, kills it and deletes its entry. In the other order, after the
  first socket closed (its pseudo-terminal killed, the entry deleted) and the second client
  connected, the exit of the first pseudo-terminal deletes the entry of the second session.
\<close>

theorem second_trigger_acts_after_reissue:
  "terminals exit_then_reconnect = [(''4fzyo82mv'', 1)]
   \<and> terminal (conns exit_then_reconnect ! 1) = Some 1
   \<and> readyState (conns exit_then_reconnect ! 1) = OPEN
   \<and> effects (step exit_then_reconnect (EvClose 0)) = effects exit_then_reconnect @ [Kill 1]
   \<and> terminals (step exit_then_reconnect (EvClose 0)) = []
   \<and> terminals close_then_reconnect = [(''4fzyo82mv'', 1)]
   \<and> terminal (conns close_then_reconnect ! 1) = Some 1
   \<and> readyState (conns close_then_reconnect ! 1) = OPEN
   \<and> Kill 0 \<in> set (effects close_then_reconnect)
   \<and> effects (step close_then_reconnect
        (EvExit 0 (JObj [(''exitCode'', JNum 0), (''signal'', JNum 1)]) JUndefined)) =
       effects close_then_reconnect
   \<and> terminals (step close_then_reconnect
        (EvExit 0 (JObj [(''exitCode'', JNum 0), (''signal'', JNum 1)]) JUndefined)) = []"
  by (simp add: exit_then_reconnect_eq close_then_reconnect_eq step_def ws_on_close_def
      kill_registered_def terminal_onExit_def Let_def)

section \<open>Initial size\<close>

text \<open>
  C10. Whatever the request and the environment of an accepted connection, whenever
  \<^verbatim>\<open>pty.spawn\<close> is called, it is called with 80 columns and 30 rows (when
  \<^verbatim>\<open>process.cwd()\<close> throws first there is no call, and no size is asked). The size asked
  of a pseudo-terminal changes in one event only when that event is the connection that
  spawns it, or a message of type \<^verbatim>\<open>resize\<close> on the session that owns it.
\<close>

theorem initial_size_80_by_30:
  "dimensions (length (conns s)) (effects (on_connection req env s)) =
     (case spawn_result env of
        CwdThrows message \<Rightarrow> dimensions (length (conns s)) (effects s)
      | _ \<Rightarrow> Some (JNum 80, JNum 30))
   \<and> (\<forall>t e. dimensions t (effects (step s e)) \<noteq> dimensions t (effects s) \<longrightarrow>
         (\<exists>req' env'. e = EvConnection req' env' \<and> t = length (conns s))
       \<or> (\<exists>c data thrown. e = EvMessage c (Some data) thrown
             \<and> js_member data ''type'' = Some (JStr ''resize'')
             \<and> c < length (conns s) \<and> terminal (conns s ! c) = Some t))"
  using dimensions_connect dimensions_step by blast

theorem initial_size_80_by_30_witness:
  "dimensions 0 (effects one_session) = Some (JNum 80, JNum 30)
   \<and> dimensions 0 (effects (step one_session (EvMessage 0 (Some (resize_envelope 120 40)) False))) =
       Some (JNum 120, JNum 40)
   \<and> js_member (resize_envelope 120 40) ''type'' = Some (JStr ''resize'')
   \<and> terminal (conns one_session ! 0) = Some 0"
proof -
  have "one_session = on_connection JNull (example_accept ''0.4fzyo82mv0p'' 4242) init"
    by (simp add: one_session_def run_def step_def init_def)
  with initial_size_80_by_30[of init JNull "example_accept ''0.4fzyo82mv0p'' 4242"]
  have a: "dimensions 0 (effects one_session) = Some (JNum 80, JNum 30)"
    by (simp add: init_def example_accept_def)
  have b: "dimensions 0 (effects (step one_session (EvMessage 0 (Some (resize_envelope 120 40)) False))) =
       Some (JNum 120, JNum 40)"
    by (simp add: one_session_eq step_def ws_on_message_def resize_envelope_def dimensions_def
        pty_options_def)
  from a b have "dimensions 0 (effects (step one_session (EvMessage 0 (Some (resize_envelope 120 40)) False)))
       \<noteq> dimensions 0 (effects one_session)"
    by simp
  with initial_size_80_by_30[of one_session]
  have "(\<exists>req' env'. EvMessage 0 (Some (resize_envelope 120 40)) False = EvConnection req' env'
            \<and> 0 = length (conns one_session))
       \<or> (\<exists>c data thrown. EvMessage 0 (Some (resize_envelope 120 40)) False =
               EvMessage c (Some data) thrown
             \<and> js_member data ''type'' = Some (JStr ''resize'')
             \<and> c < length (conns one_session) \<and> terminal (conns one_session ! c) = Some 0)"
    by blast
  then have c: "js_member (resize_envelope 120 40) ''type'' = Some (JStr ''resize'')
      \<and> terminal (conns one_session ! 0) = Some 0"
    by auto
  from a b c show ?thesis by simp
qed

section \<open>Identifiers are not unique\<close>

text \<open>
  C9. Two random draws that agree on the characters kept by \<^verbatim>\<open>generateId\<close> give two
  sessions the same identifier: both pseudo-terminals are spawned, and the second replaces
  the first in the registry, which holds a single entry. (The keys of the registry are
  distinct in every reachable state, see \<open>registry_keys_distinct\<close>.)
\<close>

theorem generateId_collision:
  "''0.4fzyo82mv0p'' \<noteq> ''0.4fzyo82mv1j''
   \<and> generateId ''0.4fzyo82mv0p'' = generateId ''0.4fzyo82mv1j''
   \<and> terminalId (conns two_sessions ! 0) = terminalId (conns two_sessions ! 1)
   \<and> terminal (conns two_sessions ! 0) = Some 0
   \<and> terminal (conns two_sessions ! 1) = Some 1
   \<and> terminals two_sessions = [(''4fzyo82mv'', 1)]"
  by (simp add: two_sessions_eq generateId_def)

section \<open>Ownership\<close>

text \<open>
  In every reachable state an entry of the registry holds the pseudo-terminal of a session
  with that identifier whose spawn succeeded and whose socket has not closed. How each event
  changes the registry is \<open>terminals_step\<close>: an entry is written only by a connection
  whose spawn succeeds, and deleted only by the exit, close and error handlers, under the
  identifier of the session they belong to.
\<close>

lemma owned_step:
  assumes inv: "\<And>k t. Map_get (terminals s) k = Some t \<Longrightarrow> owned s k t"
    and get: "Map_get (terminals (step s e)) k = Some t"
  shows "owned (step s e) k t"
proof (cases "exited s")
  case True
  then show ?thesis using inv get by (simp add: step_def)
next
  case False
  note ne = False
  show ?thesis
  proof (cases e)
    case (EvConnection req env)
    show ?thesis
    proof (cases "spawn_result env")
      case (CwdThrows message)
      then have "Map_get (terminals s) k = Some t"
        using get ne EvConnection by (simp add: terminals_step)
      then have "owned s k t" by (rule inv)
      then show ?thesis using ne EvConnection
        by (simp add: owned_def conns_step conns_on_connection nth_append)
    next
      case (SpawnThrows message)
      then have "Map_get (terminals s) k = Some t"
        using get ne EvConnection by (simp add: terminals_step)
      then have "owned s k t" by (rule inv)
      then show ?thesis using ne EvConnection
        by (simp add: owned_def conns_step conns_on_connection nth_append)
    next
      case (Spawned pid)
      show ?thesis
      proof (cases "k = generateId (rnd env)")
        case True
        then have "t = length (conns s)"
          using get ne EvConnection Spawned by (simp add: terminals_step)
        then show ?thesis using ne EvConnection Spawned True
          by (simp add: owned_def conns_step conns_on_connection)
      next
        case False
        then have "Map_get (terminals s) k = Some t"
          using get ne EvConnection Spawned by (simp add: terminals_step Map_get_set)
        then have "owned s k t" by (rule inv)
        then show ?thesis using ne EvConnection
          by (simp add: owned_def conns_step conns_on_connection nth_append)
      qed
    qed
  next
    case (EvData c d)
    then have "Map_get (terminals s) k = Some t" using get ne by (simp add: terminals_step)
    then have "owned s k t" by (rule inv)
    then show ?thesis using ne EvData by (simp add: owned_def conns_step)
  next
    case (EvExit c code signal)
    then have "Map_get (terminals s) k = Some t"
      using get ne by (simp add: terminals_step Map_get_delete split: if_splits)
    then have "owned s k t" by (rule inv)
    then show ?thesis using ne EvExit by (simp add: owned_def conns_step nth_list_update)
  next
    case (EvMessage c parsed thrown)
    then have "Map_get (terminals s) k = Some t" using get ne by (simp add: terminals_step)
    then have "owned s k t" by (rule inv)
    then show ?thesis using ne EvMessage by (simp add: owned_def conns_step)
  next
    case (EvClosing c)
    then have "Map_get (terminals s) k = Some t" using get ne by (simp add: terminals_step)
    then have "owned s k t" by (rule inv)
    then show ?thesis using ne EvClosing by (simp add: owned_def conns_step nth_list_update)
  next
    case (EvClose c)
    show ?thesis
    proof (cases "c < length (conns s)")
      case True
      then have g: "Map_get (terminals s) k = Some t" and k: "k \<noteq> terminalId (conns s ! c)"
        using get ne EvClose by (simp_all add: terminals_step Map_get_delete split: if_splits)
      from g have o: "owned s k t" by (rule inv)
      with k have "t \<noteq> c" by (auto simp add: owned_def)
      with o show ?thesis using ne EvClose True
        by (simp add: owned_def conns_step nth_list_update)
    next
      case False
      then have "Map_get (terminals s) k = Some t" using get ne EvClose by (simp add: terminals_step)
      then have "owned s k t" by (rule inv)
      then show ?thesis using ne EvClose False by (simp add: owned_def conns_step)
    qed
  next
    case (EvError c)
    then have "Map_get (terminals s) k = Some t"
      using get ne by (simp add: terminals_step Map_get_delete split: if_splits)
    then have "owned s k t" by (rule inv)
    then show ?thesis using ne EvError by (simp add: owned_def conns_step)
  next
    case EvSIGINT
    then have "Map_get (terminals s) k = Some t" using get ne by (simp add: terminals_step)
    then have "owned s k t" by (rule inv)
    then show ?thesis using ne EvSIGINT by (simp add: owned_def conns_step)
  next
    case EvListenerClosed
    then have "Map_get (terminals s) k = Some t" using get ne by (simp add: terminals_step)
    then have "owned s k t" by (rule inv)
    then show ?thesis using ne EvListenerClosed by (simp add: owned_def conns_step)
  qed
qed

lemma owned_foldl:
  assumes "\<And>k t. Map_get (terminals s) k = Some t \<Longrightarrow> owned s k t"
    and "Map_get (terminals (foldl step s es)) k = Some t"
  shows "owned (foldl step s es) k t"
  using assms
proof (induction es arbitrary: s)
  case Nil
  then show ?case by simp
next
  case (Cons e es)
  have "\<And>k t. Map_get (terminals (step s e)) k = Some t \<Longrightarrow> owned (step s e) k t"
    using Cons.prems(1) by (rule owned_step)
  then show ?case using Cons.prems(2) Cons.IH[of "step s e"] by simp
qed

lemma registry_entry_owned:
  "Map_get (terminals (run es)) k = Some t \<Longrightarrow> owned (run es) k t"
  unfolding run_def by (rule owned_foldl) (simp_all add: init_def)

lemma sole_holder_ids:
  "sole_holder s k t \<Longrightarrow> c < length (conns s) \<Longrightarrow> c \<noteq> t \<Longrightarrow> terminalId (conns s ! c) \<noteq> k"
  by (auto simp add: sole_holder_def list_all_iff)

lemma terminalId_step:
  "c < length (conns s) \<Longrightarrow> terminalId (conns (step s e) ! c) = terminalId (conns s ! c)"
  using closed_step[of c s e] by simp

lemma length_conns_step:
  "length (conns (step s e)) =
     (if exited s then length (conns s)
      else case e of EvConnection req env \<Rightarrow> Suc (length (conns s)) | _ \<Rightarrow> length (conns s))"
  by (cases e) (simp_all add: conns_step conns_on_connection)

lemma new_terminalId_step:
  "\<not> exited s \<Longrightarrow>
   terminalId (conns (step s (EvConnection req env)) ! length (conns s)) = generateId (rnd env)"
  by (simp add: conns_step conns_on_connection)

lemma sole_holder_step:
  assumes "sole_holder s k t" and "\<not> draws k e" and "\<not> ends t e"
  shows "sole_holder (step s e) k t"
proof (cases "exited s")
  case True
  then show ?thesis using assms by (simp add: step_def)
next
  case False
  have get: "Map_get (terminals s) k = Some t"
    using assms(1) by (simp add: sole_holder_def)
  have other: "\<And>c. c < length (conns s) \<Longrightarrow> c \<noteq> t \<Longrightarrow> terminalId (conns s ! c) \<noteq> k"
    using assms(1) by (rule sole_holder_ids)
  have g: "Map_get (terminals (step s e)) k = Some t"
  proof (cases e)
    case (EvConnection req env)
    then show ?thesis using get False assms(2)
      by (simp add: terminals_step draws_def Map_get_set split: spawn_outcome.splits)
  next
    case (EvExit c code signal)
    then show ?thesis using get False assms(3) other[of c]
      by (auto simp add: terminals_step ends_def Map_get_delete)
  next
    case (EvClose c)
    then show ?thesis using get False assms(3) other[of c]
      by (auto simp add: terminals_step ends_def Map_get_delete)
  next
    case (EvError c)
    then show ?thesis using get False assms(3) other[of c]
      by (auto simp add: terminals_step ends_def Map_get_delete)
  qed (use get False in \<open>simp_all add: terminals_step\<close>)
  have ids: "terminalId (conns (step s e) ! c) \<noteq> k \<or> c = t"
    if "c < length (conns (step s e))" for c
  proof (cases "c < length (conns s)")
    case True
    then show ?thesis using other[of c] by (auto simp add: terminalId_step)
  next
    case new: False
    show ?thesis
    proof (cases e)
      case (EvConnection req env)
      then have "c = length (conns s)"
        using that new False by (simp add: length_conns_step)
      then show ?thesis using EvConnection False assms(2)
        by (simp add: new_terminalId_step draws_def)
    qed (use that new False in \<open>simp_all add: length_conns_step\<close>)
  qed
  show ?thesis using g ids by (simp add: sole_holder_def list_all_iff)
qed

lemma sole_holder_after_connection:
  assumes "\<not> exited s" and "spawn_result env = Spawned pid"
    and "list_all (\<lambda>c. terminalId (conns s ! c) \<noteq> generateId (rnd env)) [0..<length (conns s)]"
  shows "sole_holder (step s (EvConnection req env)) (generateId (rnd env)) (length (conns s))"
  using assms
  by (auto simp add: sole_holder_def list_all_iff terminals_step conns_step conns_on_connection
      nth_append)

text \<open>
  The entry of a session that alone holds its identifier stays in the registry as long as
  no event ends that session and no connection draws the identifier again.
\<close>

lemma entry_persists:
  assumes "sole_holder s k t" and "list_all (\<lambda>e. \<not> draws k e \<and> \<not> ends t e) es"
  shows "sole_holder (foldl step s es) k t"
  using assms
  by (induction es arbitrary: s) (simp_all add: sole_holder_step)

text \<open>
  C1. After the two sessions with the same identifier are connected and the socket of the
  second one closes, the first session has its pseudo-terminal (no exit was delivered, no
  kill was issued) and an open socket, yet its identifier is not in the registry; when its
  own socket closes later, its pseudo-terminal is not killed.
\<close>

theorem ownership_lost_on_collision:
  "terminal (conns (step two_sessions (EvClose 1)) ! 0) = Some 0
   \<and> readyState (conns (step two_sessions (EvClose 1)) ! 0) = OPEN
   \<and> Kill 0 \<notin> set (effects (step two_sessions (EvClose 1)))
   \<and> Map_get (terminals (step two_sessions (EvClose 1)))
        (terminalId (conns (step two_sessions (EvClose 1)) ! 0)) = None
   \<and> effects (step (step two_sessions (EvClose 1)) (EvClose 0)) =
        effects two_sessions @ [Kill 1]"
  by (simp add: two_sessions_eq step_def ws_on_close_def kill_registered_def Let_def)

end
